theory Spec2Isabelle
  imports Complex_Main "HOL-Library.Sublist"
begin

section \<open>Tensors\<close>

text \<open>
  A batch of embeddings is a list of rows of reals; the arithmetic of the numeric runtime
  is taken over the reals (no rounding). Where the runtime yields NaN on a zero row
  (\<open>0 / 0\<close>), HOL's total division yields 0: statements about normalisation are made for
  non-zero rows only. Where the runtime raises on operands whose shapes do not agree,
  \<open>dot\<close> stops at the shorter row: statements about single entries are made for
  rectangular tensors only.
\<close>

type_synonym vec = "real list"
type_synonym tensor2 = "real list list"

definition norm2 :: "vec \<Rightarrow> real" where
  \<comment> \<open>\<open>x.norm(p=2, dim=-1)\<close> of one row\<close>
  "norm2 v = sqrt (sum_list (map (\<lambda>x. x * x) v))"

definition normalize_rows :: "tensor2 \<Rightarrow> tensor2" where
  \<comment> \<open>\<open>x / x.norm(p=2, dim=-1, keepdim=True)\<close>\<close>
  "normalize_rows m = map (\<lambda>v. map (\<lambda>x. x / norm2 v) v) m"

definition dot :: "vec \<Rightarrow> vec \<Rightarrow> real" where
  "dot a b = sum_list (map2 (\<lambda>x y. x * y) a b)"

definition tensor_t :: "tensor2 \<Rightarrow> tensor2" where
  \<comment> \<open>\<open>x.t()\<close> of a rectangular 2-D tensor\<close>
  "tensor_t m = (case m of [] \<Rightarrow> [] | r # _ \<Rightarrow> map (\<lambda>j. map (\<lambda>row. row ! j) m) [0..<length r])"

definition matmul :: "tensor2 \<Rightarrow> tensor2 \<Rightarrow> tensor2" where
  \<comment> \<open>\<open>torch.matmul(a, b)\<close>: entry \<open>(i, j)\<close> is row \<open>i\<close> of \<open>a\<close> times column \<open>j\<close> of \<open>b\<close>\<close>
  "matmul a b = map (\<lambda>r. map (\<lambda>c. dot r c) (tensor_t b)) a"

definition scale :: "tensor2 \<Rightarrow> real \<Rightarrow> tensor2" where
  \<comment> \<open>\<open>x * s\<close> for a scalar \<open>s\<close>\<close>
  "scale m s = map (map (\<lambda>x. x * s)) m"

definition rect :: "nat \<Rightarrow> tensor2 \<Rightarrow> bool" where
  \<comment> \<open>every row has \<open>d\<close> entries\<close>
  "rect d m = list_all (\<lambda>r. length r = d) m"

definition truthy :: "bool option \<Rightarrow> bool" where
  \<comment> \<open>Python truth value of an \<open>Optional[bool]\<close>: \<open>None\<close> and \<open>False\<close> are false\<close>
  "truthy b = (b = Some True)"

section \<open>The backbone and the adapters (external capabilities, taken as parameters)\<close>

text \<open>
  A tower's raw output; \<open>outputs[1]\<close> reads \<open>pooler_output\<close> whether the output is
  packaged as a tuple or as a dictionary-like object (\<open>as_dict\<close>).
\<close>

record 'h tower_output =
  as_dict :: bool
  last_hidden_state :: 'h
  pooler_output :: tensor2

record CLIPConfig =
  config_output_attentions :: bool
  config_output_hidden_states :: bool
  use_return_dict :: bool

text \<open>
  The towers take their inputs, then \<open>output_attentions\<close>, \<open>output_hidden_states\<close> and
  \<open>return_dict\<close>. The text tower's inputs are \<open>input_ids\<close>, \<open>attention_mask\<close>,
  \<open>position_ids\<close>; the vision tower's input is \<open>pixel_values\<close>.
\<close>

record ('tok, 'pix, 'h) CLIPModel =
  text_model :: "'tok option \<Rightarrow> 'tok option \<Rightarrow> 'tok option \<Rightarrow> bool \<Rightarrow> bool \<Rightarrow> bool \<Rightarrow> 'h tower_output"
  vision_model :: "'pix option \<Rightarrow> bool \<Rightarrow> bool \<Rightarrow> bool \<Rightarrow> 'h tower_output"
  text_projection :: "tensor2 \<Rightarrow> tensor2"
  visual_projection :: "tensor2 \<Rightarrow> tensor2"
  logit_scale :: real

text \<open>
  The result of an adapter call, read by the keys \<open>"z"\<close>, \<open>"codes"\<close>, \<open>"loss"\<close> and
  \<open>"perplexity"\<close>; the last one is read only when perplexity was requested.
\<close>

record adapter_res =
  res_z :: tensor2
  res_codes :: "int list"
  res_loss :: real
  res_perplexity :: real

type_synonym VQAdapterModel = "tensor2 \<Rightarrow> bool option \<Rightarrow> adapter_res"

section \<open>The model\<close>

text \<open>
  An adapter attribute is \<open>None\<close> or an adapter module; the tests \<open>if self.text_vq_adapter\<close>
  and \<open>if self.vision_vq_adapter\<close> hold exactly for a module.
\<close>

record ('tok, 'pix, 'h) VQCLIPModel =
  clip_config :: CLIPConfig
  clip_model :: "('tok, 'pix, 'h) CLIPModel"
  vision_vq_adapter :: "VQAdapterModel option"
  text_vq_adapter :: "VQAdapterModel option"

section \<open>The forward pass\<close>

record ('tok, 'pix) forward_args =
  input_ids :: "'tok option"
  pixel_values :: "'pix option"
  attention_mask :: "'tok option"
  position_ids :: "'tok option"
  return_loss :: "bool option"
  output_attentions :: "bool option"
  output_hidden_states :: "bool option"
  return_dict :: "bool option"
  return_perplexity :: "bool option"

text \<open>
  \<open>VQCLIPOutput\<close> extends the backbone's \<open>CLIPOutput\<close> (the first seven fields); every
  field defaults to \<open>None\<close>.
\<close>

record 'h VQCLIPOutput =
  loss :: "real option"
  logits_per_image :: "tensor2 option"
  logits_per_text :: "tensor2 option"
  text_embeds :: "tensor2 option"
  image_embeds :: "tensor2 option"
  text_model_output :: "'h tower_output option"
  vision_model_output :: "'h tower_output option"
  text_codes :: "int list option"
  image_codes :: "int list option"
  quantization_loss :: "real option"
  contrastive_loss :: "real option"
  perplexity :: "real option"

datatype 'h item = Scalar real | Tensor tensor2 | Raw "'h tower_output"

datatype 'h forward_result = FlatTuple "'h item list" | Structured "'h VQCLIPOutput"

text \<open>The local variables of \<open>forward\<close> when it reaches its return statements.\<close>

record 'h forward_vars =
  v_return_dict :: bool
  v_vision_outputs :: "'h tower_output"
  v_text_outputs :: "'h tower_output"
  v_image_embeds :: tensor2
  v_text_embeds :: tensor2
  v_image_codes :: "int list option"
  v_text_codes :: "int list option"
  v_perplexity :: real
  v_vq_loss :: real
  v_logits_per_text :: tensor2
  v_logits_per_image :: tensor2
  v_loss :: "real option"
  v_total_loss :: "real option"

definition resolve :: "bool option \<Rightarrow> bool \<Rightarrow> bool" where
  \<comment> \<open>\<open>x if x is not None else d\<close>\<close>
  "resolve x d = (case x of None \<Rightarrow> d | Some b \<Rightarrow> b)"

text \<open>
  The quantization block: the state is \<open>(embeds, codes, perplexity, vq_loss)\<close> of one
  modality's embedding and the two running sums; an absent adapter leaves it as it is.
\<close>

definition quantize_step ::
  "VQAdapterModel option \<Rightarrow> bool option \<Rightarrow> tensor2 \<times> int list option \<times> real \<times> real \<Rightarrow>
   tensor2 \<times> int list option \<times> real \<times> real" where
  "quantize_step adapter rp st =
     (case adapter of
        None \<Rightarrow> st
      | Some ad \<Rightarrow>
          (case st of (embeds, codes, perplexity0, vq_loss0) \<Rightarrow>
             (let res = ad embeds rp
              in (res_z res, Some (res_codes res),
                  perplexity0 + (if truthy rp then res_perplexity res else 0),
                  vq_loss0 + res_loss res))))"

definition forward_body ::
  "(tensor2 \<Rightarrow> real) \<Rightarrow> ('tok, 'pix, 'h) VQCLIPModel \<Rightarrow> ('tok, 'pix) forward_args \<Rightarrow> 'h forward_vars" where
  "forward_body clip_loss self a =
     (let oa = resolve (output_attentions a) (config_output_attentions (clip_config self));
          ohs = resolve (output_hidden_states a) (config_output_hidden_states (clip_config self));
          rd = resolve (return_dict a) (use_return_dict (clip_config self));
          vision_outputs = vision_model (clip_model self) (pixel_values a) oa ohs rd;
          text_outputs =
            text_model (clip_model self) (input_ids a) (attention_mask a) (position_ids a) oa ohs rd;
          image_embeds0 = visual_projection (clip_model self) (pooler_output vision_outputs);
          text_embeds0 = text_projection (clip_model self) (pooler_output text_outputs);
          image_embeds1 = normalize_rows image_embeds0;
          text_embeds1 = normalize_rows text_embeds0;
          (text_embeds2, text_codes1, perplexity1, vq_loss1) =
            quantize_step (text_vq_adapter self) (return_perplexity a) (text_embeds1, None, 0, 0);
          (image_embeds2, image_codes1, perplexity2, vq_loss2) =
            quantize_step (vision_vq_adapter self) (return_perplexity a)
              (image_embeds1, None, perplexity1, vq_loss1);
          both = (vision_vq_adapter self \<noteq> None \<and> text_vq_adapter self \<noteq> None);
          perplexity3 = (if both then perplexity2 / 2 else perplexity2);
          vq_loss3 = (if both then vq_loss2 / 2 else vq_loss2);
          logit_scale_exp = exp (logit_scale (clip_model self));
          lpt = scale (matmul text_embeds2 (tensor_t image_embeds2)) logit_scale_exp;
          lpi = tensor_t lpt;
          loss0 = (if truthy (return_loss a) then Some (clip_loss lpt) else None);
          total_loss = (case loss0 of None \<Rightarrow> None | Some l \<Rightarrow> Some (l + vq_loss3))
      in \<lparr> v_return_dict = rd,
           v_vision_outputs = vision_outputs,
           v_text_outputs = text_outputs,
           v_image_embeds = image_embeds2,
           v_text_embeds = text_embeds2,
           v_image_codes = image_codes1,
           v_text_codes = text_codes1,
           v_perplexity = perplexity3,
           v_vq_loss = vq_loss3,
           v_logits_per_text = lpt,
           v_logits_per_image = lpi,
           v_loss = loss0,
           v_total_loss = total_loss \<rparr>)"

definition flat_output :: "'h forward_vars \<Rightarrow> 'h item list" where
  "flat_output v =
     (let output = [Tensor (v_logits_per_image v), Tensor (v_logits_per_text v),
                    Tensor (v_text_embeds v), Tensor (v_image_embeds v),
                    Raw (v_text_outputs v), Raw (v_vision_outputs v)]
      in (case v_loss v of Some l \<Rightarrow> Scalar l # output | None \<Rightarrow> output))"

definition structured_output :: "'h forward_vars \<Rightarrow> 'h VQCLIPOutput" where
  "structured_output v =
     \<lparr> loss = v_total_loss v,
       logits_per_image = Some (v_logits_per_image v),
       logits_per_text = Some (v_logits_per_text v),
       text_embeds = Some (v_text_embeds v),
       image_embeds = Some (v_image_embeds v),
       text_model_output = None,
       vision_model_output = None,
       text_codes = v_text_codes v,
       image_codes = v_image_codes v,
       quantization_loss = Some (v_vq_loss v),
       contrastive_loss = v_loss v,
       perplexity = None \<rparr>"

definition forward ::
  "(tensor2 \<Rightarrow> real) \<Rightarrow> ('tok, 'pix, 'h) VQCLIPModel \<Rightarrow> ('tok, 'pix) forward_args \<Rightarrow> 'h forward_result" where
  "forward clip_loss self a =
     (let v = forward_body clip_loss self a
      in if \<not> v_return_dict v then FlatTuple (flat_output v) else Structured (structured_output v))"

text \<open>
  Names for intermediate values of \<open>forward\<close>: the projected embeddings (before the
  normalisation), the normalized embeddings (before the quantization block), and the
  condition under which the backbone's towers compute the same pooled features whether
  or not a dictionary-like output is asked of them.
\<close>

definition projected_text_embeds ::
  "('tok, 'pix, 'h) VQCLIPModel \<Rightarrow> ('tok, 'pix) forward_args \<Rightarrow> tensor2" where
  "projected_text_embeds self a =
     text_projection (clip_model self)
       (pooler_output
          (text_model (clip_model self) (input_ids a) (attention_mask a) (position_ids a)
             (resolve (output_attentions a) (config_output_attentions (clip_config self)))
             (resolve (output_hidden_states a) (config_output_hidden_states (clip_config self)))
             (resolve (return_dict a) (use_return_dict (clip_config self)))))"

definition projected_image_embeds ::
  "('tok, 'pix, 'h) VQCLIPModel \<Rightarrow> ('tok, 'pix) forward_args \<Rightarrow> tensor2" where
  "projected_image_embeds self a =
     visual_projection (clip_model self)
       (pooler_output
          (vision_model (clip_model self) (pixel_values a)
             (resolve (output_attentions a) (config_output_attentions (clip_config self)))
             (resolve (output_hidden_states a) (config_output_hidden_states (clip_config self)))
             (resolve (return_dict a) (use_return_dict (clip_config self)))))"

definition normalized_text_embeds ::
  "('tok, 'pix, 'h) VQCLIPModel \<Rightarrow> ('tok, 'pix) forward_args \<Rightarrow> tensor2" where
  "normalized_text_embeds self a = normalize_rows (projected_text_embeds self a)"

definition normalized_image_embeds ::
  "('tok, 'pix, 'h) VQCLIPModel \<Rightarrow> ('tok, 'pix) forward_args \<Rightarrow> tensor2" where
  "normalized_image_embeds self a = normalize_rows (projected_image_embeds self a)"

definition nonzero :: "vec \<Rightarrow> bool" where
  "nonzero v = (\<exists>x \<in> set v. x \<noteq> 0)"

definition pooled_same_in_both_modes ::
  "('tok, 'pix, 'h) VQCLIPModel \<Rightarrow> ('tok, 'pix) forward_args \<Rightarrow> bool" where
  "pooled_same_in_both_modes self a =
     (let oa = resolve (output_attentions a) (config_output_attentions (clip_config self));
          ohs = resolve (output_hidden_states a) (config_output_hidden_states (clip_config self))
      in pooler_output (vision_model (clip_model self) (pixel_values a) oa ohs True) =
           pooler_output (vision_model (clip_model self) (pixel_values a) oa ohs False) \<and>
         pooler_output
           (text_model (clip_model self) (input_ids a) (attention_mask a) (position_ids a) oa ohs True) =
           pooler_output
             (text_model (clip_model self) (input_ids a) (attention_mask a) (position_ids a) oa ohs False))"

section \<open>Selective persistence\<close>

text \<open>
  \<open>save_adapter\<close> walks the items of \<open>state_dict()\<close> in order, skips every key that starts
  with \<open>"clip_model"\<close> and stores the others in a fresh dictionary.
\<close>

fun save_adapter_loop :: "(string \<times> 'w) list \<Rightarrow> (string \<rightharpoonup> 'w) \<Rightarrow> (string \<rightharpoonup> 'w)" where
  "save_adapter_loop [] sd = sd"
| "save_adapter_loop ((k, v) # items) sd =
     (if prefix ''clip_model'' k then save_adapter_loop items sd
      else save_adapter_loop items (sd(k \<mapsto> v)))"

definition save_adapter_sd :: "(string \<times> 'w) list \<Rightarrow> (string \<rightharpoonup> 'w)" where
  "save_adapter_sd items = save_adapter_loop items Map.empty"

definition save_adapter ::
  "('m \<Rightarrow> 'a \<Rightarrow> (string \<rightharpoonup> 'w) \<Rightarrow> 'r) \<Rightarrow> ('m \<Rightarrow> (string \<times> 'w) list) \<Rightarrow> 'm \<Rightarrow> 'a \<Rightarrow> 'r" where
  \<comment> \<open>\<open>save_pretrained\<close> and \<open>state_dict\<close> are the framework's; \<open>args\<close> are passed through\<close>
  "save_adapter save_pretrained state_dict self args =
     save_pretrained self args (save_adapter_sd (state_dict self))"

text \<open>
  \<open>from_pretrained_clip\<close>: both loaders are the framework's and may raise; an exception
  leaves the function at once.
\<close>

definition from_pretrained_clip ::
  "(string \<Rightarrow> 'e + ('tok, 'pix, 'h) VQCLIPModel) \<Rightarrow> (string \<Rightarrow> 'e + ('tok, 'pix, 'h) CLIPModel) \<Rightarrow>
   string \<Rightarrow> string \<Rightarrow> 'e + ('tok, 'pix, 'h) VQCLIPModel" where
  "from_pretrained_clip VQCLIPModel_from_pretrained CLIPModel_from_pretrained vq_clip_path clip_path =
     (case VQCLIPModel_from_pretrained vq_clip_path of
        Inl e \<Rightarrow> Inl e
      | Inr vq_clip \<Rightarrow>
          (case CLIPModel_from_pretrained clip_path of
             Inl e \<Rightarrow> Inl e
           | Inr clip \<Rightarrow> Inr (vq_clip\<lparr>clip_model := clip\<rparr>)))"

section \<open>The composite configuration\<close>

text \<open>
  A configuration fragment is a dictionary (\<open>'d\<close>) or \<open>None\<close>. The keyword arguments of
  \<open>__init__\<close> are a mapping from argument names to such values; an argument that is not
  given takes its default: \<open>CLIPConfig().to_dict()\<close> for the backbone fragment,
  \<open>VQAdapterConfig().to_dict()\<close> for the vision adapter and \<open>None\<close> for the text adapter.
\<close>

record 'd VQCLIPConfig =
  clip_config_dict :: "'d option"
  vision_vq_adapter_config_dict :: "'d option"
  text_vq_adapter_config_dict :: "'d option"

definition VQCLIPConfig_init :: "'d \<Rightarrow> 'd \<Rightarrow> (string \<rightharpoonup> 'd option) \<Rightarrow> 'd VQCLIPConfig" where
  "VQCLIPConfig_init default_clip default_adapter kwargs =
     \<lparr> clip_config_dict =
         (case kwargs ''clip_config_dict'' of None \<Rightarrow> Some default_clip | Some v \<Rightarrow> v),
       vision_vq_adapter_config_dict =
         (case kwargs ''vision_vq_adapter_config_dict'' of None \<Rightarrow> Some default_adapter | Some v \<Rightarrow> v),
       text_vq_adapter_config_dict =
         (case kwargs ''text_vq_adapter_config_dict'' of None \<Rightarrow> None | Some v \<Rightarrow> v) \<rparr>"

text \<open>
  Modelled from the spec: the serialisation of the composite to a nested mapping is
  inherited from the framework's configuration base class, which is not among the
  repository's files. The mapping holds the three named fragments of the composite, an
  absent fragment as \<open>None\<close>.
\<close>

definition to_dict :: "'d VQCLIPConfig \<Rightarrow> (string \<rightharpoonup> 'd option)" where
  "to_dict c =
     [''clip_config_dict'' \<mapsto> clip_config_dict c,
      ''vision_vq_adapter_config_dict'' \<mapsto> vision_vq_adapter_config_dict c,
      ''text_vq_adapter_config_dict'' \<mapsto> text_vq_adapter_config_dict c]"

text \<open>
  Modelled from the spec: the reconstruction of a composite from a nested mapping is
  inherited from the same base class. It passes the entries of the mapping to
  \<open>__init__\<close> as keyword arguments.
\<close>

definition from_dict :: "'d \<Rightarrow> 'd \<Rightarrow> (string \<rightharpoonup> 'd option) \<Rightarrow> 'd VQCLIPConfig" where
  "from_dict default_clip default_adapter config_dict =
     VQCLIPConfig_init default_clip default_adapter config_dict"

section \<open>Concrete instances\<close>

text \<open>
  A backbone whose towers return fixed pooled features for a batch of two, with identity
  projections and \<open>logit_scale = 0\<close>; adapters that return fixed results; a stand-in for
  the backbone's contrastive loss.
\<close>

definition ex_clip :: "(nat, nat, unit) CLIPModel" where
  "ex_clip =
     \<lparr> text_model = (\<lambda>ids mask pos oa ohs rd.
         \<lparr> as_dict = rd, last_hidden_state = (), pooler_output = [[2, 0], [0, 2]] \<rparr>),
       vision_model = (\<lambda>pix oa ohs rd.
         \<lparr> as_dict = rd, last_hidden_state = (), pooler_output = [[0, 4], [4, 0]] \<rparr>),
       text_projection = (\<lambda>x. x),
       visual_projection = (\<lambda>x. x),
       logit_scale = 0 \<rparr>"

definition ex_text_adapter :: VQAdapterModel where
  "ex_text_adapter = (\<lambda>x rp.
     \<lparr> res_z = [[2, 0], [0, 3]], res_codes = [5, 6], res_loss = 1, res_perplexity = 3 \<rparr>)"

definition ex_vision_adapter :: VQAdapterModel where
  "ex_vision_adapter = (\<lambda>x rp.
     \<lparr> res_z = x, res_codes = [1, 0], res_loss = 2, res_perplexity = 4 \<rparr>)"

definition ex_exact_adapter :: VQAdapterModel where
  \<comment> \<open>every input is one of its codes: the quantized embedding is the input, at loss 0\<close>
  "ex_exact_adapter = (\<lambda>x rp.
     \<lparr> res_z = x, res_codes = [1, 0], res_loss = 0, res_perplexity = 2 \<rparr>)"

definition ex_model ::
  "VQAdapterModel option \<Rightarrow> VQAdapterModel option \<Rightarrow> (nat, nat, unit) VQCLIPModel" where
  "ex_model text_adapter vision_adapter =
     \<lparr> clip_config = \<lparr> config_output_attentions = False, config_output_hidden_states = False,
                       use_return_dict = True \<rparr>,
       clip_model = ex_clip,
       vision_vq_adapter = vision_adapter,
       text_vq_adapter = text_adapter \<rparr>"

definition ex_args :: "bool option \<Rightarrow> bool option \<Rightarrow> bool option \<Rightarrow> (nat, nat) forward_args" where
  "ex_args rl rd rp =
     \<lparr> input_ids = Some 1, pixel_values = Some 2, attention_mask = None, position_ids = None,
       return_loss = rl, output_attentions = None, output_hidden_states = None,
       return_dict = rd, return_perplexity = rp \<rparr>"

definition ex_clip_loss :: "tensor2 \<Rightarrow> real" where
  "ex_clip_loss m = sum_list (map sum_list m)"

definition ex_load_vq :: "string \<Rightarrow> string + (nat, nat, unit) VQCLIPModel" where
  "ex_load_vq path =
     (if path = ''adapters'' then Inr (ex_model None (Some ex_vision_adapter))
      else Inl (''no checkpoint at '' @ path))"

definition ex_load_clip :: "string \<Rightarrow> string + (nat, nat, unit) CLIPModel" where
  "ex_load_clip path =
     (if path = ''backbone'' then Inr (ex_clip\<lparr>logit_scale := 1\<rparr>)
      else Inl (''no checkpoint at '' @ path))"

definition ex_state_dict :: "(string \<times> nat) list" where
  "ex_state_dict =
     [(''clip_model.logit_scale'', 1), (''vision_vq_adapter.codebook'', 2),
      (''clip_model.text_projection.weight'', 3), (''temperature'', 4)]"

section \<open>Properties of the tensor operations\<close>

text \<open>
  A non-zero row divided by its own norm has norm 1; on rectangular tensors \<open>tensor_t\<close>
  is the transpose, and the entries of the scaled product are the scaled dot products of
  the rows.
\<close>

lemma sum_squares_pos:
  assumes "\<exists>x\<in>set v. x \<noteq> (0::real)"
  shows "0 < sum_list (map (\<lambda>x. x * x) v)"
  using assms
proof (induction v)
  case Nil
  then show ?case by simp
next
  case (Cons a v)
  have nonneg: "0 \<le> sum_list (map (\<lambda>x. x * x) v)"
    by (rule sum_list_nonneg) auto
  show ?case
  proof (cases "a = 0")
    case True
    with Cons show ?thesis by simp
  next
    case False
    then have "0 < a * a" by (auto simp: zero_less_mult_iff neq_iff)
    with nonneg show ?thesis by simp
  qed
qed

lemma norm2_normalized:
  assumes "\<exists>x\<in>set v. x \<noteq> 0"
  shows "norm2 (map (\<lambda>x. x / norm2 v) v) = 1"
proof -
  let ?s = "sum_list (map (\<lambda>x. x * x) v)"
  have pos: "0 < ?s" using assms by (rule sum_squares_pos)
  have sq: "norm2 v * norm2 v = ?s"
    using pos by (simp add: norm2_def)
  have "sum_list (map (\<lambda>x. x * x) (map (\<lambda>x. x / norm2 v) v))
        = sum_list (map (\<lambda>x. (1 / ?s) * (x * x)) v)"
    using sq by (simp add: comp_def divide_simps)
  also have "\<dots> = (1 / ?s) * ?s"
    by (simp only: sum_list_const_mult)
  also have "\<dots> = 1" using pos by simp
  finally show ?thesis by (simp add: norm2_def)
qed

lemma normalize_rows_unit:
  assumes "i < length m" and "nonzero (m ! i)"
  shows "norm2 (normalize_rows m ! i) = 1"
  using assms by (simp add: normalize_rows_def nonzero_def norm2_normalized)

lemma tensor_t_rect:
  assumes "rect d m" and "m \<noteq> []"
  shows "tensor_t m = map (\<lambda>j. map (\<lambda>row. row ! j) m) [0..<d]"
  using assms by (cases m) (simp_all add: tensor_t_def rect_def)

lemma tensor_t_involution:
  assumes r: "rect d m" and ne: "m \<noteq> []" and d: "0 < d"
  shows "tensor_t (tensor_t m) = m"
proof -
  have t: "tensor_t m = map (\<lambda>j. map (\<lambda>row. row ! j) m) [0..<d]"
    by (rule tensor_t_rect [OF r ne])
  have r': "rect (length m) (tensor_t m)"
    by (simp add: t rect_def list_all_iff)
  have ne': "tensor_t m \<noteq> []"
    using d by (simp add: t)
  have "tensor_t (tensor_t m) = map (\<lambda>i. map (\<lambda>col. col ! i) (tensor_t m)) [0..<length m]"
    by (rule tensor_t_rect [OF r' ne'])
  also have "\<dots> = map (\<lambda>i. m ! i) [0..<length m]"
  proof (rule map_cong [OF refl])
    fix i assume "i \<in> set [0..<length m]"
    then have i: "i < length m" by simp
    then have len: "length (m ! i) = d"
      using r by (simp add: rect_def list_all_length)
    have "map (\<lambda>col. col ! i) (tensor_t m) = map (\<lambda>j. (m ! i) ! j) [0..<d]"
      using i by (simp add: t comp_def)
    also have "\<dots> = m ! i"
      using len by (metis map_nth)
    finally show "map (\<lambda>col. col ! i) (tensor_t m) = m ! i" .
  qed
  also have "\<dots> = m" by (rule map_nth)
  finally show ?thesis .
qed

lemma logits_entry:
  assumes ri: "rect d ie" and ne: "ie \<noteq> []" and d: "0 < d"
    and i: "i < length te" and j: "j < length ie"
  shows "scale (matmul te (tensor_t ie)) s ! i ! j = dot (te ! i) (ie ! j) * s"
  using i j by (simp add: scale_def matmul_def tensor_t_involution [OF ri ne d])

lemma logits_transpose_entry:
  assumes ne: "te \<noteq> []" and ne': "ie \<noteq> []" and ri: "rect d ie" and d: "0 < d"
    and i: "i < length te" and j: "j < length ie"
  shows "tensor_t (scale (matmul te (tensor_t ie)) s) ! j ! i = scale (matmul te (tensor_t ie)) s ! i ! j"
proof -
  let ?l = "scale (matmul te (tensor_t ie)) s"
  have r: "rect (length ie) ?l"
    by (simp add: rect_def list_all_iff scale_def matmul_def tensor_t_involution [OF ri ne' d])
  have n: "?l \<noteq> []" using ne by (simp add: scale_def matmul_def)
  have len: "length ?l = length te" by (simp add: scale_def matmul_def)
  show ?thesis
    using i j by (simp add: tensor_t_rect [OF r n] len)
qed

section \<open>The local variables of the forward pass\<close>

text \<open>
  Each local variable of \<open>forward\<close> as a function of the model and the arguments.
\<close>

lemma body_return_dict:
  "v_return_dict (forward_body cl self a) = resolve (return_dict a) (use_return_dict (clip_config self))"
  by (simp add: forward_body_def Let_def split: prod.splits)

lemma body_loss:
  "v_loss (forward_body cl self a) =
     (if truthy (return_loss a) then Some (cl (v_logits_per_text (forward_body cl self a))) else None)"
  by (simp add: forward_body_def Let_def split: prod.splits)

lemma body_total_loss:
  "v_total_loss (forward_body cl self a) =
     (case v_loss (forward_body cl self a) of None \<Rightarrow> None
      | Some l \<Rightarrow> Some (l + v_vq_loss (forward_body cl self a)))"
  by (simp add: forward_body_def Let_def split: prod.splits)

lemma body_logits_per_text:
  "v_logits_per_text (forward_body cl self a) =
     scale (matmul (v_text_embeds (forward_body cl self a))
              (tensor_t (v_image_embeds (forward_body cl self a))))
       (exp (logit_scale (clip_model self)))"
  by (simp add: forward_body_def Let_def split: prod.splits)

lemma body_logits_per_image:
  "v_logits_per_image (forward_body cl self a) = tensor_t (v_logits_per_text (forward_body cl self a))"
  by (simp add: forward_body_def Let_def split: prod.splits)

lemma body_text_embeds:
  "v_text_embeds (forward_body cl self a) =
     (case text_vq_adapter self of
        None \<Rightarrow> normalized_text_embeds self a
      | Some ad \<Rightarrow> res_z (ad (normalized_text_embeds self a) (return_perplexity a)))"
  by (simp add: forward_body_def Let_def normalized_text_embeds_def projected_text_embeds_def
      quantize_step_def split: prod.splits option.splits)

lemma body_image_embeds:
  "v_image_embeds (forward_body cl self a) =
     (case vision_vq_adapter self of
        None \<Rightarrow> normalized_image_embeds self a
      | Some ad \<Rightarrow> res_z (ad (normalized_image_embeds self a) (return_perplexity a)))"
  by (simp add: forward_body_def Let_def normalized_image_embeds_def projected_image_embeds_def
      quantize_step_def split: prod.splits option.splits)

lemma body_text_codes:
  "v_text_codes (forward_body cl self a) =
     (case text_vq_adapter self of
        None \<Rightarrow> None
      | Some ad \<Rightarrow> Some (res_codes (ad (normalized_text_embeds self a) (return_perplexity a))))"
  by (simp add: forward_body_def Let_def normalized_text_embeds_def projected_text_embeds_def
      quantize_step_def split: prod.splits option.splits)

lemma body_image_codes:
  "v_image_codes (forward_body cl self a) =
     (case vision_vq_adapter self of
        None \<Rightarrow> None
      | Some ad \<Rightarrow> Some (res_codes (ad (normalized_image_embeds self a) (return_perplexity a))))"
  by (simp add: forward_body_def Let_def normalized_image_embeds_def projected_image_embeds_def
      quantize_step_def split: prod.splits option.splits)

lemma body_vq_loss:
  "v_vq_loss (forward_body cl self a) =
     (case (text_vq_adapter self, vision_vq_adapter self) of
        (None, None) \<Rightarrow> 0
      | (Some t, None) \<Rightarrow> res_loss (t (normalized_text_embeds self a) (return_perplexity a))
      | (None, Some v) \<Rightarrow> res_loss (v (normalized_image_embeds self a) (return_perplexity a))
      | (Some t, Some v) \<Rightarrow>
          (res_loss (t (normalized_text_embeds self a) (return_perplexity a)) +
           res_loss (v (normalized_image_embeds self a) (return_perplexity a))) / 2)"
  by (simp add: forward_body_def Let_def normalized_image_embeds_def projected_image_embeds_def
      normalized_text_embeds_def projected_text_embeds_def
      quantize_step_def split: prod.splits option.splits)

lemma body_perplexity:
  "v_perplexity (forward_body cl self a) =
     (if truthy (return_perplexity a) then
        (case (text_vq_adapter self, vision_vq_adapter self) of
           (None, None) \<Rightarrow> 0
         | (Some t, None) \<Rightarrow> res_perplexity (t (normalized_text_embeds self a) (return_perplexity a))
         | (None, Some v) \<Rightarrow> res_perplexity (v (normalized_image_embeds self a) (return_perplexity a))
         | (Some t, Some v) \<Rightarrow>
             (res_perplexity (t (normalized_text_embeds self a) (return_perplexity a)) +
              res_perplexity (v (normalized_image_embeds self a) (return_perplexity a))) / 2)
      else 0)"
  by (simp add: forward_body_def Let_def normalized_image_embeds_def projected_image_embeds_def
      normalized_text_embeds_def projected_text_embeds_def
      quantize_step_def split: prod.splits option.splits)

lemma body_raw_outputs:
  "v_text_outputs (forward_body cl self a) =
     text_model (clip_model self) (input_ids a) (attention_mask a) (position_ids a)
       (resolve (output_attentions a) (config_output_attentions (clip_config self)))
       (resolve (output_hidden_states a) (config_output_hidden_states (clip_config self)))
       (resolve (return_dict a) (use_return_dict (clip_config self)))"
  "v_vision_outputs (forward_body cl self a) =
     vision_model (clip_model self) (pixel_values a)
       (resolve (output_attentions a) (config_output_attentions (clip_config self)))
       (resolve (output_hidden_states a) (config_output_hidden_states (clip_config self)))
       (resolve (return_dict a) (use_return_dict (clip_config self)))"
  by (simp_all add: forward_body_def Let_def split: prod.splits)

lemma forward_Structured_iff:
  "forward cl self a = Structured out \<longleftrightarrow>
     resolve (return_dict a) (use_return_dict (clip_config self)) \<and>
     out = structured_output (forward_body cl self a)"
  by (auto simp: forward_def Let_def body_return_dict)

lemma forward_FlatTuple_iff:
  "forward cl self a = FlatTuple xs \<longleftrightarrow>
     \<not> resolve (return_dict a) (use_return_dict (clip_config self)) \<and>
     xs = flat_output (forward_body cl self a)"
  by (auto simp: forward_def Let_def body_return_dict)

lemma flat_output_eq:
  "flat_output v =
     (case v_loss v of Some l \<Rightarrow> [Scalar l] | None \<Rightarrow> []) @
     [Tensor (v_logits_per_image v), Tensor (v_logits_per_text v),
      Tensor (v_text_embeds v), Tensor (v_image_embeds v),
      Raw (v_text_outputs v), Raw (v_vision_outputs v)]"
  by (simp add: flat_output_def Let_def split: option.splits)

lemma forward_perplexity_absent:
  "forward clip_loss self a = Structured out \<Longrightarrow> perplexity out = None"
  by (simp add: forward_Structured_iff structured_output_def)

text \<open>
  Where the towers compute the same pooled features in both packagings, the embeddings,
  the quantization loss and the logits do not depend on \<open>return_dict\<close>.
\<close>

lemma normalized_text_embeds_mode:
  assumes "pooled_same_in_both_modes self a"
  shows "normalized_text_embeds self (a\<lparr>return_dict := rd\<rparr>) = normalized_text_embeds self a"
proof -
  have "\<And>b b'. pooler_output (text_model (clip_model self) (input_ids a) (attention_mask a) (position_ids a)
             (resolve (output_attentions a) (config_output_attentions (clip_config self)))
             (resolve (output_hidden_states a) (config_output_hidden_states (clip_config self))) b)
        = pooler_output (text_model (clip_model self) (input_ids a) (attention_mask a) (position_ids a)
             (resolve (output_attentions a) (config_output_attentions (clip_config self)))
             (resolve (output_hidden_states a) (config_output_hidden_states (clip_config self))) b')"
  proof -
    fix b b' show "?thesis b b'"
      using assms by (cases b; cases b') (simp_all add: pooled_same_in_both_modes_def Let_def)
  qed
  from this [of "resolve rd (use_return_dict (clip_config self))"
      "resolve (return_dict a) (use_return_dict (clip_config self))"]
  show ?thesis
    by (simp add: normalized_text_embeds_def projected_text_embeds_def)
qed

lemma normalized_image_embeds_mode:
  assumes "pooled_same_in_both_modes self a"
  shows "normalized_image_embeds self (a\<lparr>return_dict := rd\<rparr>) = normalized_image_embeds self a"
proof -
  have "\<And>b b'. pooler_output (vision_model (clip_model self) (pixel_values a)
             (resolve (output_attentions a) (config_output_attentions (clip_config self)))
             (resolve (output_hidden_states a) (config_output_hidden_states (clip_config self))) b)
        = pooler_output (vision_model (clip_model self) (pixel_values a)
             (resolve (output_attentions a) (config_output_attentions (clip_config self)))
             (resolve (output_hidden_states a) (config_output_hidden_states (clip_config self))) b')"
  proof -
    fix b b' show "?thesis b b'"
      using assms by (cases b; cases b') (simp_all add: pooled_same_in_both_modes_def Let_def)
  qed
  from this [of "resolve rd (use_return_dict (clip_config self))"
      "resolve (return_dict a) (use_return_dict (clip_config self))"]
  show ?thesis
    by (simp add: normalized_image_embeds_def projected_image_embeds_def)
qed

lemma body_embeds_mode:
  assumes "pooled_same_in_both_modes self a"
  shows "v_text_embeds (forward_body cl self (a\<lparr>return_dict := rd\<rparr>)) = v_text_embeds (forward_body cl self a)"
    and "v_image_embeds (forward_body cl self (a\<lparr>return_dict := rd\<rparr>)) = v_image_embeds (forward_body cl self a)"
    and "v_vq_loss (forward_body cl self (a\<lparr>return_dict := rd\<rparr>)) = v_vq_loss (forward_body cl self a)"
  using assms
  by (simp_all add: body_text_embeds body_image_embeds body_vq_loss normalized_text_embeds_mode
      normalized_image_embeds_mode split: option.splits)

lemma body_logits_mode:
  assumes "pooled_same_in_both_modes self a"
  shows "v_logits_per_text (forward_body cl self (a\<lparr>return_dict := rd\<rparr>)) = v_logits_per_text (forward_body cl self a)"
    and "v_logits_per_image (forward_body cl self (a\<lparr>return_dict := rd\<rparr>)) = v_logits_per_image (forward_body cl self a)"
  using body_embeds_mode [OF assms]
  by (simp_all add: body_logits_per_text body_logits_per_image)

text \<open>
  The unfolding rules that evaluate the forward pass on the concrete instances.
\<close>

lemmas ex_defs = forward_def forward_body_def flat_output_def structured_output_def ex_model_def ex_args_def ex_clip_def ex_text_adapter_def ex_vision_adapter_def ex_exact_adapter_def
     quantize_step_def resolve_def truthy_def normalize_rows_def norm2_def scale_def matmul_def tensor_t_def dot_def ex_clip_loss_def Let_def

lemmas ex_embeds_defs = projected_text_embeds_def projected_image_embeds_def
  normalized_text_embeds_def normalized_image_embeds_def nonzero_def rect_def

section \<open>Properties of selective persistence\<close>

lemma save_adapter_loop_lookup:
  "distinct (map fst items) \<Longrightarrow>
   save_adapter_loop items sd k =
     (if prefix ''clip_model'' k then sd k
      else (case map_of items k of None \<Rightarrow> sd k | Some v \<Rightarrow> Some v))"
proof (induction items arbitrary: sd)
  case Nil
  then show ?case by simp
next
  case (Cons kv items)
  obtain k' v' where kv: "kv = (k', v')" by (cases kv)
  from Cons.prems kv have d: "distinct (map fst items)" and nin: "k' \<notin> fst ` set items"
    by auto
  from nin have none: "map_of items k' = None"
    by (simp add: map_of_eq_None_iff)
  show ?case
    using Cons.IH [OF d] kv none by (auto split: option.splits)
qed

section \<open>The claims\<close>

subsection \<open>C1: logits and normalisation\<close>

text \<open>
  C1, as stated: every embedding fed into the similarity computation has L2 norm 1, also
  when an adapter has replaced the modality's embedding. This fails: an adapter's output
  \<open>z\<close> replaces the embedding and is not normalized again. With the text adapter
  \<open>ex_text_adapter\<close> the rows fed in have norms 2 and 3, and the logits are
  \<open>[[0, 2], [3, 0]]\<close> where the product of unit-norm rows would give
  \<open>[[0, 1], [1, 0]]\<close>.
\<close>

theorem forward_logits_counterexample:
  "text_vq_adapter (ex_model (Some ex_text_adapter) None) \<noteq> None \<and>
   projected_text_embeds (ex_model (Some ex_text_adapter) None) (ex_args None None None) = [[2, 0], [0, 2]] \<and>
   v_text_embeds (forward_body ex_clip_loss (ex_model (Some ex_text_adapter) None) (ex_args None None None)) =
     [[2, 0], [0, 3]] \<and>
   norm2 [2, 0] = 2 \<and> norm2 [0, 3] = 3 \<and>
   v_logits_per_text (forward_body ex_clip_loss (ex_model (Some ex_text_adapter) None) (ex_args None None None)) =
     [[0, 2], [3, 0]] \<and>
   scale (matmul (normalize_rows [[2, 0], [0, 3]])
            (tensor_t (v_image_embeds
               (forward_body ex_clip_loss (ex_model (Some ex_text_adapter) None) (ex_args None None None)))))
     (exp (logit_scale (clip_model (ex_model (Some ex_text_adapter) None)))) = [[0, 1], [1, 0]]"
  by (simp add: ex_defs ex_embeds_defs real_sqrt_unique)

text \<open>
  C1, amended: \<open>logits_per_text\<close> is the product of the text embeddings with the
  transposed image embeddings, times \<open>exp(logit_scale)\<close>, and \<open>logits_per_image\<close> is
  its transpose (entry \<open>(i, j)\<close> of \<open>logits_per_text\<close> is the scaled dot product of text
  row \<open>i\<close> and image row \<open>j\<close>). For a modality without an adapter the embedding fed in
  is the normalized projection, and each of its rows that comes from a non-zero projected
  row has L2 norm 1. For a modality with an adapter the embedding fed in is the adapter's
  output \<open>z\<close> on that normalized projection, as returned.
\<close>

theorem forward_logits:
  "(let V = forward_body clip_loss self a;
        s = exp (logit_scale (clip_model self))
    in v_logits_per_text V = scale (matmul (v_text_embeds V) (tensor_t (v_image_embeds V))) s \<and>
       v_logits_per_image V = tensor_t (v_logits_per_text V) \<and>
       v_text_embeds V =
         (case text_vq_adapter self of
            None \<Rightarrow> normalized_text_embeds self a
          | Some ad \<Rightarrow> res_z (ad (normalized_text_embeds self a) (return_perplexity a))) \<and>
       v_image_embeds V =
         (case vision_vq_adapter self of
            None \<Rightarrow> normalized_image_embeds self a
          | Some ad \<Rightarrow> res_z (ad (normalized_image_embeds self a) (return_perplexity a))) \<and>
       (\<forall>i < length (projected_text_embeds self a).
          nonzero (projected_text_embeds self a ! i) \<longrightarrow>
          norm2 (normalized_text_embeds self a ! i) = 1) \<and>
       (\<forall>j < length (projected_image_embeds self a).
          nonzero (projected_image_embeds self a ! j) \<longrightarrow>
          norm2 (normalized_image_embeds self a ! j) = 1) \<and>
       (rect d (v_image_embeds V) \<and> 0 < d \<longrightarrow>
          (\<forall>i < length (v_text_embeds V). \<forall>j < length (v_image_embeds V).
             v_logits_per_text V ! i ! j = dot (v_text_embeds V ! i) (v_image_embeds V ! j) * s \<and>
             v_logits_per_image V ! j ! i = v_logits_per_text V ! i ! j)))"
proof -
  let ?V = "forward_body clip_loss self a" and ?s = "exp (logit_scale (clip_model self))"
  have lpt: "v_logits_per_text ?V = scale (matmul (v_text_embeds ?V) (tensor_t (v_image_embeds ?V))) ?s"
    by (rule body_logits_per_text)
  have lpi: "v_logits_per_image ?V = tensor_t (v_logits_per_text ?V)"
    by (rule body_logits_per_image)
  have unit_t: "\<forall>i < length (projected_text_embeds self a).
          nonzero (projected_text_embeds self a ! i) \<longrightarrow>
          norm2 (normalized_text_embeds self a ! i) = 1"
    by (simp add: normalized_text_embeds_def normalize_rows_unit)
  have unit_i: "\<forall>j < length (projected_image_embeds self a).
          nonzero (projected_image_embeds self a ! j) \<longrightarrow>
          norm2 (normalized_image_embeds self a ! j) = 1"
    by (simp add: normalized_image_embeds_def normalize_rows_unit)
  have entry: "rect d (v_image_embeds ?V) \<and> 0 < d \<longrightarrow>
          (\<forall>i < length (v_text_embeds ?V). \<forall>j < length (v_image_embeds ?V).
             v_logits_per_text ?V ! i ! j = dot (v_text_embeds ?V ! i) (v_image_embeds ?V ! j) * ?s \<and>
             v_logits_per_image ?V ! j ! i = v_logits_per_text ?V ! i ! j)"
  proof (intro impI allI)
    fix i j
    assume rd: "rect d (v_image_embeds ?V) \<and> 0 < d"
      and i: "i < length (v_text_embeds ?V)" and j: "j < length (v_image_embeds ?V)"
    from j have ne: "v_image_embeds ?V \<noteq> []" by auto
    from i have ne': "v_text_embeds ?V \<noteq> []" by auto
    from rd have r: "rect d (v_image_embeds ?V)" and d: "0 < d" by simp_all
    show "v_logits_per_text ?V ! i ! j = dot (v_text_embeds ?V ! i) (v_image_embeds ?V ! j) * ?s \<and>
          v_logits_per_image ?V ! j ! i = v_logits_per_text ?V ! i ! j"
      unfolding lpi unfolding lpt
      using logits_entry [OF r ne d i j] logits_transpose_entry [OF ne' ne r d i j]
      by simp
  qed
  show ?thesis
    unfolding Let_def
    using lpt lpi unit_t unit_i entry body_text_embeds [of clip_loss self a]
      body_image_embeds [of clip_loss self a]
    by blast
qed

theorem forward_logits_witness:
  "0 < length (projected_text_embeds (ex_model None (Some ex_vision_adapter)) (ex_args None None None)) \<and>
   nonzero (projected_text_embeds (ex_model None (Some ex_vision_adapter)) (ex_args None None None) ! 0) \<and>
   projected_text_embeds (ex_model None (Some ex_vision_adapter)) (ex_args None None None) ! 0 = [2, 0] \<and>
   v_text_embeds (forward_body ex_clip_loss (ex_model None (Some ex_vision_adapter)) (ex_args None None None)) ! 0 = [1, 0] \<and>
   norm2 (v_text_embeds (forward_body ex_clip_loss (ex_model None (Some ex_vision_adapter)) (ex_args None None None)) ! 0) = 1 \<and>
   rect 2 (v_image_embeds (forward_body ex_clip_loss (ex_model None (Some ex_vision_adapter)) (ex_args None None None))) \<and>
   v_logits_per_text (forward_body ex_clip_loss (ex_model None (Some ex_vision_adapter)) (ex_args None None None)) ! 0 ! 1 = 1 \<and>
   v_logits_per_image (forward_body ex_clip_loss (ex_model None (Some ex_vision_adapter)) (ex_args None None None)) ! 1 ! 0 = 1"
proof -
  let ?m = "ex_model None (Some ex_vision_adapter)" and ?a = "ex_args None None None"
  let ?V = "forward_body ex_clip_loss ?m ?a"
  have p: "projected_text_embeds ?m ?a = [[2, 0], [0, 2]]"
    by (simp add: ex_embeds_defs ex_defs)
  have len: "0 < length (projected_text_embeds ?m ?a)" and nz: "nonzero (projected_text_embeds ?m ?a ! 0)"
    by (simp_all add: p nonzero_def)
  have te: "v_text_embeds ?V = [[1, 0], [0, 1]]" and ie: "v_image_embeds ?V = [[0, 1], [1, 0]]"
    by (simp_all add: ex_defs)
  have r: "rect 2 (v_image_embeds ?V)"
    by (simp add: ie rect_def)
  have none: "text_vq_adapter ?m = None" and s: "logit_scale (clip_model ?m) = 0"
    by (simp_all add: ex_model_def ex_clip_def)
  note inst = forward_logits [of ex_clip_loss ?m ?a 2, unfolded Let_def]
  from inst none have fed: "v_text_embeds ?V = normalized_text_embeds ?m ?a"
    by simp
  from inst len nz have "norm2 (normalized_text_embeds ?m ?a ! 0) = 1"
    by blast
  with fed have unit: "norm2 (v_text_embeds ?V ! 0) = 1"
    by simp
  from inst have "rect 2 (v_image_embeds ?V) \<and> 0 < (2::nat) \<longrightarrow>
          (\<forall>i < length (v_text_embeds ?V). \<forall>j < length (v_image_embeds ?V).
             v_logits_per_text ?V ! i ! j =
               dot (v_text_embeds ?V ! i) (v_image_embeds ?V ! j) * exp (logit_scale (clip_model ?m)) \<and>
             v_logits_per_image ?V ! j ! i = v_logits_per_text ?V ! i ! j)"
    by blast
  with r have "\<forall>i < length (v_text_embeds ?V). \<forall>j < length (v_image_embeds ?V).
             v_logits_per_text ?V ! i ! j =
               dot (v_text_embeds ?V ! i) (v_image_embeds ?V ! j) * exp (logit_scale (clip_model ?m)) \<and>
             v_logits_per_image ?V ! j ! i = v_logits_per_text ?V ! i ! j"
    by simp
  then have "v_logits_per_text ?V ! 0 ! 1 =
               dot (v_text_embeds ?V ! 0) (v_image_embeds ?V ! 1) * exp (logit_scale (clip_model ?m)) \<and>
             v_logits_per_image ?V ! 1 ! 0 = v_logits_per_text ?V ! 0 ! 1"
    by (simp add: te ie)
  then have l: "v_logits_per_text ?V ! 0 ! 1 = 1" "v_logits_per_image ?V ! 1 ! 0 = 1"
    by (simp_all add: te ie s dot_def)
  from len nz p te unit r l show ?thesis by simp
qed

subsection \<open>C2: perplexity in the structured result\<close>

text \<open>
  C2: the perplexity is to be present in the structured result when it was requested and
  an adapter is active. The code computes it (\<open>v_perplexity\<close>) and never passes it to
  \<open>VQCLIPOutput\<close>, whose \<open>perplexity\<close> field keeps its default \<open>None\<close>: with a text
  adapter reporting perplexity 3 and \<open>return_perplexity = True\<close>, the computed value is 3
  and the field of the result is \<open>None\<close>.
\<close>

theorem forward_perplexity_dropped:
  "text_vq_adapter (ex_model (Some ex_text_adapter) None) \<noteq> None \<and>
   truthy (return_perplexity (ex_args None (Some True) (Some True))) \<and>
   forward ex_clip_loss (ex_model (Some ex_text_adapter) None) (ex_args None (Some True) (Some True)) =
     Structured (structured_output
       (forward_body ex_clip_loss (ex_model (Some ex_text_adapter) None) (ex_args None (Some True) (Some True)))) \<and>
   v_perplexity
     (forward_body ex_clip_loss (ex_model (Some ex_text_adapter) None) (ex_args None (Some True) (Some True))) = 3 \<and>
   perplexity (structured_output
       (forward_body ex_clip_loss (ex_model (Some ex_text_adapter) None) (ex_args None (Some True) (Some True)))) =
     None"
  by (simp add: ex_defs)

subsection \<open>C3: averaging over two adapters\<close>

text \<open>
  C3: with both adapters active, adapter losses 1 and 2 and perplexities 3 and 4, the
  reported quantization loss is the mean \<open>(1 + 2) / 2\<close>, and the computed perplexity is
  the mean \<open>(3 + 4) / 2\<close>; the result's \<open>perplexity\<close> field is \<open>None\<close> all the same
  (the general values are \<open>body_vq_loss\<close> and \<open>body_perplexity\<close>).
\<close>

theorem forward_average_perplexity_dropped:
  "forward ex_clip_loss (ex_model (Some ex_text_adapter) (Some ex_vision_adapter))
     (ex_args None (Some True) (Some True)) =
     Structured (structured_output
       (forward_body ex_clip_loss (ex_model (Some ex_text_adapter) (Some ex_vision_adapter))
          (ex_args None (Some True) (Some True)))) \<and>
   quantization_loss (structured_output
       (forward_body ex_clip_loss (ex_model (Some ex_text_adapter) (Some ex_vision_adapter))
          (ex_args None (Some True) (Some True)))) = Some ((1 + 2) / 2) \<and>
   v_perplexity
     (forward_body ex_clip_loss (ex_model (Some ex_text_adapter) (Some ex_vision_adapter))
        (ex_args None (Some True) (Some True))) = (3 + 4) / 2 \<and>
   perplexity (structured_output
       (forward_body ex_clip_loss (ex_model (Some ex_text_adapter) (Some ex_vision_adapter))
          (ex_args None (Some True) (Some True)))) = None"
  by (simp add: ex_defs)

subsection \<open>C4: the total loss\<close>

text \<open>
  C4: for every forward call the total loss is the contrastive loss plus the quantization
  loss when \<open>return_loss\<close> is true, and \<open>None\<close> otherwise; the structured result carries
  it in \<open>loss\<close>, next to \<open>contrastive_loss\<close> and \<open>quantization_loss\<close>.
\<close>

theorem forward_total_loss:
  "v_total_loss (forward_body clip_loss self a) =
     (if truthy (return_loss a)
      then Some (clip_loss (v_logits_per_text (forward_body clip_loss self a)) +
                 v_vq_loss (forward_body clip_loss self a))
      else None) \<and>
   v_loss (forward_body clip_loss self a) =
     (if truthy (return_loss a)
      then Some (clip_loss (v_logits_per_text (forward_body clip_loss self a)))
      else None) \<and>
   loss (structured_output (forward_body clip_loss self a)) = v_total_loss (forward_body clip_loss self a) \<and>
   contrastive_loss (structured_output (forward_body clip_loss self a)) = v_loss (forward_body clip_loss self a) \<and>
   quantization_loss (structured_output (forward_body clip_loss self a)) =
     Some (v_vq_loss (forward_body clip_loss self a)) \<and>
   forward clip_loss self a =
     (if resolve (return_dict a) (use_return_dict (clip_config self))
      then Structured (structured_output (forward_body clip_loss self a))
      else FlatTuple (flat_output (forward_body clip_loss self a)))"
  by (simp add: body_total_loss body_loss structured_output_def forward_def Let_def body_return_dict)

subsection \<open>C5: the loss position of the two output modes\<close>

text \<open>
  C5, as stated: with \<open>return_loss\<close> true and an adapter active, the two output modes
  report different values in their loss position. This fails when the active adapter
  reports a loss of 0: with \<open>ex_exact_adapter\<close> both modes report 2.
\<close>

theorem forward_loss_positions_counterexample:
  "text_vq_adapter (ex_model (Some ex_exact_adapter) None) \<noteq> None \<and>
   truthy (return_loss (ex_args (Some True) (Some False) None)) \<and>
   forward ex_clip_loss (ex_model (Some ex_exact_adapter) None) (ex_args (Some True) (Some False) None) =
     FlatTuple [Scalar 2, Tensor [[0, 1], [1, 0]], Tensor [[0, 1], [1, 0]],
                Tensor [[1, 0], [0, 1]], Tensor [[0, 1], [1, 0]],
                Raw \<lparr> as_dict = False, last_hidden_state = (), pooler_output = [[2, 0], [0, 2]] \<rparr>,
                Raw \<lparr> as_dict = False, last_hidden_state = (), pooler_output = [[0, 4], [4, 0]] \<rparr>] \<and>
   forward ex_clip_loss (ex_model (Some ex_exact_adapter) None) (ex_args (Some True) (Some True) None) =
     Structured (structured_output
       (forward_body ex_clip_loss (ex_model (Some ex_exact_adapter) None) (ex_args (Some True) (Some True) None))) \<and>
   loss (structured_output
       (forward_body ex_clip_loss (ex_model (Some ex_exact_adapter) None) (ex_args (Some True) (Some True) None))) =
     Some 2"
  by (simp add: ex_defs)

text \<open>
  C5, amended: with \<open>return_loss\<close> true, the loss prepended to the flat tuple is the
  contrastive loss alone and the structured result's \<open>loss\<close> is the contrastive loss plus
  the quantization loss; the two values are equal when the quantization loss is 0, so the
  two modes may report the same value. The two calls differ in \<open>return_dict\<close> only, on a
  backbone whose towers compute the same pooled features in both packagings.
\<close>

theorem forward_loss_positions:
  assumes rl: "truthy (return_loss a)"
    and flat: "forward clip_loss self a = FlatTuple xs"
    and dict: "forward clip_loss self (a\<lparr>return_dict := rd\<rparr>) = Structured out"
    and same: "pooled_same_in_both_modes self a"
  shows "\<exists>c q rest. xs = Scalar c # rest \<and> contrastive_loss out = Some c \<and>
           quantization_loss out = Some q \<and> loss out = Some (c + q) \<and>
           (q = 0 \<longrightarrow> loss out = Some c)"
proof -
  let ?v = "forward_body clip_loss self a" and ?v' = "forward_body clip_loss self (a\<lparr>return_dict := rd\<rparr>)"
  let ?c = "clip_loss (v_logits_per_text ?v)"
  from flat have xs: "xs = flat_output ?v"
    by (simp add: forward_FlatTuple_iff)
  from dict have out: "out = structured_output ?v'"
    by (simp add: forward_Structured_iff)
  have l: "v_loss ?v = Some ?c" using rl by (simp add: body_loss)
  have l': "v_loss ?v' = Some ?c" using rl by (simp add: body_loss body_logits_mode [OF same])
  have q: "v_vq_loss ?v' = v_vq_loss ?v" by (rule body_embeds_mode [OF same])
  have "xs = Scalar ?c # tl xs"
    by (simp add: xs flat_output_eq l)
  moreover have "contrastive_loss out = Some ?c" "quantization_loss out = Some (v_vq_loss ?v)"
    "loss out = Some (?c + v_vq_loss ?v)"
    by (simp_all add: out structured_output_def l' q body_total_loss)
  ultimately show ?thesis by auto
qed

theorem forward_loss_positions_witness:
  "truthy (return_loss (ex_args (Some True) (Some False) None)) \<and>
   pooled_same_in_both_modes (ex_model (Some ex_text_adapter) (Some ex_vision_adapter))
     (ex_args (Some True) (Some False) None) \<and>
   (\<exists>rest. forward ex_clip_loss (ex_model (Some ex_text_adapter) (Some ex_vision_adapter))
       (ex_args (Some True) (Some False) None) = FlatTuple (Scalar 5 # rest)) \<and>
   (\<exists>out. forward ex_clip_loss (ex_model (Some ex_text_adapter) (Some ex_vision_adapter))
       ((ex_args (Some True) (Some False) None)\<lparr>return_dict := Some True\<rparr>) = Structured out \<and>
       contrastive_loss out = Some 5 \<and> quantization_loss out = Some (3 / 2) \<and>
       loss out = Some (13 / 2)) \<and>
   pooled_same_in_both_modes (ex_model None (Some ex_exact_adapter))
     (ex_args (Some True) (Some False) None) \<and>
   (\<exists>rest. forward ex_clip_loss (ex_model None (Some ex_exact_adapter))
       (ex_args (Some True) (Some False) None) = FlatTuple (Scalar 2 # rest)) \<and>
   (\<exists>out. forward ex_clip_loss (ex_model None (Some ex_exact_adapter))
       ((ex_args (Some True) (Some False) None)\<lparr>return_dict := Some True\<rparr>) = Structured out \<and>
       contrastive_loss out = Some 2 \<and> quantization_loss out = Some 0 \<and>
       loss out = Some 2)"
proof -
  let ?m = "ex_model (Some ex_text_adapter) (Some ex_vision_adapter)"
  let ?n = "ex_model None (Some ex_exact_adapter)"
  let ?a = "ex_args (Some True) (Some False) None"
  let ?out = "structured_output (forward_body ex_clip_loss ?m (?a\<lparr>return_dict := Some True\<rparr>))"
  let ?res = "structured_output (forward_body ex_clip_loss ?n (?a\<lparr>return_dict := Some True\<rparr>))"
  have rl: "truthy (return_loss ?a)"
    by (simp add: truthy_def ex_args_def)
  have flat: "forward ex_clip_loss ?m ?a = FlatTuple (flat_output (forward_body ex_clip_loss ?m ?a))"
    by (simp add: forward_FlatTuple_iff resolve_def ex_args_def)
  have dict: "forward ex_clip_loss ?m (?a\<lparr>return_dict := Some True\<rparr>) = Structured ?out"
    by (simp add: forward_Structured_iff resolve_def)
  have same: "pooled_same_in_both_modes ?m ?a"
    by (simp add: pooled_same_in_both_modes_def ex_model_def ex_clip_def ex_args_def)
  have first: "hd (flat_output (forward_body ex_clip_loss ?m ?a)) = Scalar 5"
    by (simp add: ex_defs)
  have q: "quantization_loss ?out = Some (3 / 2)"
    by (simp add: ex_defs)
  from forward_loss_positions [OF rl flat dict same] obtain c q rest
    where f: "flat_output (forward_body ex_clip_loss ?m ?a) = Scalar c # rest"
      and o: "contrastive_loss ?out = Some c" "quantization_loss ?out = Some q"
        "loss ?out = Some (c + q)"
    by blast
  from f first have c: "c = 5" by simp
  from o(2) q have q': "q = 3 / 2" by simp
  have flat0: "forward ex_clip_loss ?n ?a = FlatTuple (flat_output (forward_body ex_clip_loss ?n ?a))"
    by (simp add: forward_FlatTuple_iff resolve_def ex_args_def)
  have dict0: "forward ex_clip_loss ?n (?a\<lparr>return_dict := Some True\<rparr>) = Structured ?res"
    by (simp add: forward_Structured_iff resolve_def)
  have same0: "pooled_same_in_both_modes ?n ?a"
    by (simp add: pooled_same_in_both_modes_def ex_model_def ex_clip_def ex_args_def)
  have first0: "hd (flat_output (forward_body ex_clip_loss ?n ?a)) = Scalar 2"
    by (simp add: ex_defs)
  have q0: "quantization_loss ?res = Some 0"
    by (simp add: ex_defs)
  from forward_loss_positions [OF rl flat0 dict0 same0] obtain c0 q0' rest0
    where f0: "flat_output (forward_body ex_clip_loss ?n ?a) = Scalar c0 # rest0"
      and o0: "contrastive_loss ?res = Some c0" "quantization_loss ?res = Some q0'"
      and z: "q0' = 0 \<longrightarrow> loss ?res = Some c0"
    by blast
  from f0 first0 have c0: "c0 = 2" by simp
  from o0(2) q0 have "q0' = 0" by simp
  with z have l0: "loss ?res = Some c0" by simp
  have a: "\<exists>rest. forward ex_clip_loss ?m ?a = FlatTuple (Scalar 5 # rest)"
    using flat f unfolding c by simp
  have b: "\<exists>out. forward ex_clip_loss ?m (?a\<lparr>return_dict := Some True\<rparr>) = Structured out \<and>
       contrastive_loss out = Some 5 \<and> quantization_loss out = Some (3 / 2) \<and>
       loss out = Some (13 / 2)"
    using dict o unfolding c q' by simp
  have a0: "\<exists>rest. forward ex_clip_loss ?n ?a = FlatTuple (Scalar 2 # rest)"
    using flat0 f0 unfolding c0 by simp
  have b0: "\<exists>out. forward ex_clip_loss ?n (?a\<lparr>return_dict := Some True\<rparr>) = Structured out \<and>
       contrastive_loss out = Some 2 \<and> quantization_loss out = Some 0 \<and> loss out = Some 2"
    using dict0 o0(1) q0 l0 unfolding c0 by simp
  from rl same a b same0 a0 b0 show ?thesis by blast
qed

subsection \<open>C6: the flat tuple\<close>

text \<open>
  C6: the flat tuple is \<open>(loss?, logits_per_image, logits_per_text, text_embeds,
  image_embeds, text_outputs, vision_outputs)\<close> in that order, the loss first exactly when
  \<open>return_loss\<close> is true; its logits and embeddings are those of the structured result of
  the call that differs in \<open>return_dict\<close> only, on a backbone whose towers compute the
  same pooled features in both packagings.
\<close>

theorem forward_flat_tuple:
  assumes flat: "forward clip_loss self a = FlatTuple xs"
    and dict: "forward clip_loss self (a\<lparr>return_dict := rd\<rparr>) = Structured out"
    and same: "pooled_same_in_both_modes self a"
  shows "\<exists>lpi lpt te ie.
     xs = (if truthy (return_loss a) then [Scalar (clip_loss lpt)] else []) @
          [Tensor lpi, Tensor lpt, Tensor te, Tensor ie,
           Raw (text_model (clip_model self) (input_ids a) (attention_mask a) (position_ids a)
                  (resolve (output_attentions a) (config_output_attentions (clip_config self)))
                  (resolve (output_hidden_states a) (config_output_hidden_states (clip_config self)))
                  False),
           Raw (vision_model (clip_model self) (pixel_values a)
                  (resolve (output_attentions a) (config_output_attentions (clip_config self)))
                  (resolve (output_hidden_states a) (config_output_hidden_states (clip_config self)))
                  False)] \<and>
     logits_per_image out = Some lpi \<and> logits_per_text out = Some lpt \<and>
     text_embeds out = Some te \<and> image_embeds out = Some ie"
proof -
  let ?v = "forward_body clip_loss self a"
  from flat have rd: "\<not> resolve (return_dict a) (use_return_dict (clip_config self))"
    and xs: "xs = flat_output ?v"
    by (simp_all add: forward_FlatTuple_iff)
  from dict have out: "out = structured_output (forward_body clip_loss self (a\<lparr>return_dict := rd\<rparr>))"
    by (simp add: forward_Structured_iff)
  have l: "(case v_loss ?v of Some l \<Rightarrow> [Scalar l] | None \<Rightarrow> []) =
           (if truthy (return_loss a) then [Scalar (clip_loss (v_logits_per_text ?v))] else [])"
    by (simp add: body_loss)
  have "xs = (if truthy (return_loss a) then [Scalar (clip_loss (v_logits_per_text ?v))] else []) @
          [Tensor (v_logits_per_image ?v), Tensor (v_logits_per_text ?v),
           Tensor (v_text_embeds ?v), Tensor (v_image_embeds ?v),
           Raw (text_model (clip_model self) (input_ids a) (attention_mask a) (position_ids a)
                  (resolve (output_attentions a) (config_output_attentions (clip_config self)))
                  (resolve (output_hidden_states a) (config_output_hidden_states (clip_config self)))
                  False),
           Raw (vision_model (clip_model self) (pixel_values a)
                  (resolve (output_attentions a) (config_output_attentions (clip_config self)))
                  (resolve (output_hidden_states a) (config_output_hidden_states (clip_config self)))
                  False)]"
    unfolding xs flat_output_eq l using rd by (simp add: body_raw_outputs)
  moreover have "logits_per_image out = Some (v_logits_per_image ?v)"
    "logits_per_text out = Some (v_logits_per_text ?v)"
    "text_embeds out = Some (v_text_embeds ?v)"
    "image_embeds out = Some (v_image_embeds ?v)"
    by (simp_all add: out structured_output_def body_logits_mode [OF same] body_embeds_mode [OF same])
  ultimately show ?thesis by blast
qed

theorem forward_flat_tuple_witness:
  "forward ex_clip_loss (ex_model (Some ex_text_adapter) (Some ex_vision_adapter))
     (ex_args (Some True) (Some False) None) =
     FlatTuple [Scalar 5, Tensor [[0, 3], [2, 0]], Tensor [[0, 2], [3, 0]],
                Tensor [[2, 0], [0, 3]], Tensor [[0, 1], [1, 0]],
                Raw \<lparr> as_dict = False, last_hidden_state = (), pooler_output = [[2, 0], [0, 2]] \<rparr>,
                Raw \<lparr> as_dict = False, last_hidden_state = (), pooler_output = [[0, 4], [4, 0]] \<rparr>] \<and>
   pooled_same_in_both_modes (ex_model (Some ex_text_adapter) (Some ex_vision_adapter))
     (ex_args (Some True) (Some False) None) \<and>
   (\<exists>out. forward ex_clip_loss (ex_model (Some ex_text_adapter) (Some ex_vision_adapter))
            ((ex_args (Some True) (Some False) None)\<lparr>return_dict := Some True\<rparr>) = Structured out \<and>
          logits_per_image out = Some [[0, 3], [2, 0]] \<and>
          logits_per_text out = Some [[0, 2], [3, 0]] \<and>
          text_embeds out = Some [[2, 0], [0, 3]] \<and>
          image_embeds out = Some [[0, 1], [1, 0]])"
proof -
  let ?m = "ex_model (Some ex_text_adapter) (Some ex_vision_adapter)"
  let ?a = "ex_args (Some True) (Some False) None"
  have flat: "forward ex_clip_loss ?m ?a = FlatTuple (flat_output (forward_body ex_clip_loss ?m ?a))"
    by (simp add: forward_FlatTuple_iff resolve_def ex_args_def)
  have dict: "forward ex_clip_loss ?m (?a\<lparr>return_dict := Some True\<rparr>) =
      Structured (structured_output (forward_body ex_clip_loss ?m (?a\<lparr>return_dict := Some True\<rparr>)))"
    by (simp add: forward_Structured_iff resolve_def)
  have same: "pooled_same_in_both_modes ?m ?a"
    by (simp add: pooled_same_in_both_modes_def ex_model_def ex_clip_def ex_args_def)
  have vals: "forward ex_clip_loss ?m ?a =
     FlatTuple [Scalar 5, Tensor [[0, 3], [2, 0]], Tensor [[0, 2], [3, 0]],
                Tensor [[2, 0], [0, 3]], Tensor [[0, 1], [1, 0]],
                Raw \<lparr> as_dict = False, last_hidden_state = (), pooler_output = [[2, 0], [0, 2]] \<rparr>,
                Raw \<lparr> as_dict = False, last_hidden_state = (), pooler_output = [[0, 4], [4, 0]] \<rparr>]"
    by (simp add: ex_defs)
  have rl: "truthy (return_loss ?a)"
    by (simp add: truthy_def ex_args_def)
  from flat vals have fo: "flat_output (forward_body ex_clip_loss ?m ?a) =
      [Scalar 5, Tensor [[0, 3], [2, 0]], Tensor [[0, 2], [3, 0]],
       Tensor [[2, 0], [0, 3]], Tensor [[0, 1], [1, 0]],
       Raw \<lparr> as_dict = False, last_hidden_state = (), pooler_output = [[2, 0], [0, 2]] \<rparr>,
       Raw \<lparr> as_dict = False, last_hidden_state = (), pooler_output = [[0, 4], [4, 0]] \<rparr>]"
    by simp
  from forward_flat_tuple [OF flat dict same] obtain lpi lpt te ie
    where xs: "flat_output (forward_body ex_clip_loss ?m ?a) =
        (if truthy (return_loss ?a) then [Scalar (ex_clip_loss lpt)] else []) @
        [Tensor lpi, Tensor lpt, Tensor te, Tensor ie,
         Raw (text_model (clip_model ?m) (input_ids ?a) (attention_mask ?a) (position_ids ?a)
                (resolve (output_attentions ?a) (config_output_attentions (clip_config ?m)))
                (resolve (output_hidden_states ?a) (config_output_hidden_states (clip_config ?m)))
                False),
         Raw (vision_model (clip_model ?m) (pixel_values ?a)
                (resolve (output_attentions ?a) (config_output_attentions (clip_config ?m)))
                (resolve (output_hidden_states ?a) (config_output_hidden_states (clip_config ?m)))
                False)]"
      and out: "logits_per_image (structured_output (forward_body ex_clip_loss ?m (?a\<lparr>return_dict := Some True\<rparr>))) = Some lpi"
        "logits_per_text (structured_output (forward_body ex_clip_loss ?m (?a\<lparr>return_dict := Some True\<rparr>))) = Some lpt"
        "text_embeds (structured_output (forward_body ex_clip_loss ?m (?a\<lparr>return_dict := Some True\<rparr>))) = Some te"
        "image_embeds (structured_output (forward_body ex_clip_loss ?m (?a\<lparr>return_dict := Some True\<rparr>))) = Some ie"
    by blast
  from xs rl have eqs: "lpi = [[0, 3], [2, 0]]" "lpt = [[0, 2], [3, 0]]" "te = [[2, 0], [0, 3]]"
    "ie = [[0, 1], [1, 0]]"
    unfolding fo by simp_all
  from vals same dict out show ?thesis
    unfolding eqs by simp
qed

subsection \<open>C7: save-adapter\<close>

text \<open>
  C7: the parameter mapping that \<open>save_adapter\<close> hands to \<open>save_pretrained\<close> (recorded
  here by a \<open>save_pretrained\<close> that returns it) has no entry whose name starts with
  \<open>"clip_model"\<close> and has every other entry of \<open>state_dict()\<close>, with its value. The names
  of a dictionary's items are distinct.
\<close>

theorem save_adapter_selective:
  assumes "distinct (map fst (state_dict self))"
  shows "save_adapter (\<lambda>m args sd. sd) state_dict self args k =
           (if prefix ''clip_model'' k then None else map_of (state_dict self) k)"
  using save_adapter_loop_lookup [OF assms, of Map.empty k]
  by (simp add: save_adapter_def save_adapter_sd_def split: option.splits)

theorem save_adapter_selective_witness:
  "distinct (map fst ex_state_dict) \<and>
   save_adapter (\<lambda>m args sd. sd) (\<lambda>m. ex_state_dict) () () ''clip_model.logit_scale'' = None \<and>
   save_adapter (\<lambda>m args sd. sd) (\<lambda>m. ex_state_dict) () () ''vision_vq_adapter.codebook'' = Some 2 \<and>
   save_adapter (\<lambda>m args sd. sd) (\<lambda>m. ex_state_dict) () () ''temperature'' = Some 4"
proof -
  have d: "distinct (map fst ((\<lambda>m. ex_state_dict) ()))"
    by (simp add: ex_state_dict_def)
  show ?thesis
    using d save_adapter_selective [of "\<lambda>m. ex_state_dict" "()" "()" "''clip_model.logit_scale''"]
      save_adapter_selective [of "\<lambda>m. ex_state_dict" "()" "()" "''vision_vq_adapter.codebook''"]
      save_adapter_selective [of "\<lambda>m. ex_state_dict" "()" "()" "''temperature''"]
    by (simp add: ex_state_dict_def)
qed

subsection \<open>C8: graft-load\<close>

text \<open>
  C8: if loading the adapter checkpoint fails, or loading the backbone fails,
  \<open>from_pretrained_clip\<close> fails with that error and returns no model; a model is returned
  only when both loads succeeded, and then its backbone is the loaded one while its
  adapters and configuration are those of the model restored from the adapter checkpoint.
\<close>

theorem from_pretrained_clip_atomic:
  "(load_vq vq_clip_path = Inl e \<longrightarrow>
      from_pretrained_clip load_vq load_clip vq_clip_path clip_path = Inl e) \<and>
   (load_vq vq_clip_path = Inr m \<and> load_clip clip_path = Inl e \<longrightarrow>
      from_pretrained_clip load_vq load_clip vq_clip_path clip_path = Inl e) \<and>
   (load_vq vq_clip_path = Inr m \<and> load_clip clip_path = Inr c \<longrightarrow>
      (\<exists>r. from_pretrained_clip load_vq load_clip vq_clip_path clip_path = Inr r \<and>
           clip_model r = c \<and>
           vision_vq_adapter r = vision_vq_adapter m \<and>
           text_vq_adapter r = text_vq_adapter m \<and>
           clip_config r = clip_config m)) \<and>
   (from_pretrained_clip load_vq load_clip vq_clip_path clip_path = Inr r \<longrightarrow>
      (\<exists>m' c'. load_vq vq_clip_path = Inr m' \<and> load_clip clip_path = Inr c'))"
  by (auto simp: from_pretrained_clip_def split: sum.splits)

theorem from_pretrained_clip_atomic_witness:
  "from_pretrained_clip ex_load_vq ex_load_clip ''missing'' ''backbone'' = Inl ''no checkpoint at missing'' \<and>
   from_pretrained_clip ex_load_vq ex_load_clip ''adapters'' ''gone'' = Inl ''no checkpoint at gone'' \<and>
   (\<exists>r. from_pretrained_clip ex_load_vq ex_load_clip ''adapters'' ''backbone'' = Inr r \<and>
        clip_model r = ex_clip\<lparr>logit_scale := 1\<rparr> \<and>
        vision_vq_adapter r = Some ex_vision_adapter \<and>
        text_vq_adapter r = None)"
proof -
  let ?m = "ex_model None (Some ex_vision_adapter)" and ?c = "ex_clip\<lparr>logit_scale := 1\<rparr>"
  have v1: "ex_load_vq ''missing'' = Inl ''no checkpoint at missing''"
    and v2: "ex_load_vq ''adapters'' = Inr ?m"
    by (simp_all add: ex_load_vq_def)
  have c1: "ex_load_clip ''gone'' = Inl ''no checkpoint at gone''"
    and c2: "ex_load_clip ''backbone'' = Inr ?c"
    by (simp_all add: ex_load_clip_def)
  have m: "vision_vq_adapter ?m = Some ex_vision_adapter" "text_vq_adapter ?m = None"
    by (simp_all add: ex_model_def)
  from from_pretrained_clip_atomic
    [of ex_load_vq "''missing''" "''no checkpoint at missing''" ex_load_clip "''backbone''"] v1
  have a: "from_pretrained_clip ex_load_vq ex_load_clip ''missing'' ''backbone'' =
             Inl ''no checkpoint at missing''"
    by blast
  from from_pretrained_clip_atomic
    [of ex_load_vq "''adapters''" "''no checkpoint at gone''" ex_load_clip "''gone''" ?m] v2 c1
  have b: "from_pretrained_clip ex_load_vq ex_load_clip ''adapters'' ''gone'' =
             Inl ''no checkpoint at gone''"
    by blast
  from from_pretrained_clip_atomic
    [of ex_load_vq "''adapters''" _ ex_load_clip "''backbone''" ?m ?c] v2 c2
  have c: "\<exists>r. from_pretrained_clip ex_load_vq ex_load_clip ''adapters'' ''backbone'' = Inr r \<and>
        clip_model r = ?c \<and> vision_vq_adapter r = vision_vq_adapter ?m \<and>
        text_vq_adapter r = text_vq_adapter ?m"
    by blast
  from a b c m show ?thesis by simp
qed

subsection \<open>C9: no active adapter\<close>

text \<open>
  C9: on a model without adapters, the structured result reports a quantization loss of
  exactly 0 and has no codes for either modality.
\<close>

theorem forward_no_adapters:
  assumes "text_vq_adapter self = None" and "vision_vq_adapter self = None"
    and "forward clip_loss self a = Structured out"
  shows "quantization_loss out = Some 0 \<and> text_codes out = None \<and> image_codes out = None"
  using assms
  by (simp add: forward_Structured_iff structured_output_def body_vq_loss body_text_codes
      body_image_codes)

theorem forward_no_adapters_witness:
  "text_vq_adapter (ex_model None None) = None \<and>
   vision_vq_adapter (ex_model None None) = None \<and>
   (\<exists>out. forward ex_clip_loss (ex_model None None) (ex_args (Some True) None (Some True)) = Structured out \<and>
          quantization_loss out = Some 0 \<and> text_codes out = None \<and> image_codes out = None)"
proof -
  let ?m = "ex_model None None" and ?a = "ex_args (Some True) None (Some True)"
  have t: "text_vq_adapter ?m = None" and v: "vision_vq_adapter ?m = None"
    by (simp_all add: ex_model_def)
  have f: "forward ex_clip_loss ?m ?a = Structured (structured_output (forward_body ex_clip_loss ?m ?a))"
    by (simp add: forward_Structured_iff resolve_def ex_model_def ex_args_def)
  from forward_no_adapters [OF t v f] t v f show ?thesis by simp
qed

subsection \<open>C10: the configuration round trip\<close>

text \<open>
  C10: a composite built from a backbone fragment and any combination of present or
  absent adapter fragments, serialized to a mapping and reconstructed from it, is the
  composite it was, field for field.
\<close>

theorem config_round_trip:
  "from_dict default_clip default_adapter
     (to_dict (VQCLIPConfig_init default_clip default_adapter
        [''clip_config_dict'' \<mapsto> Some clip,
         ''vision_vq_adapter_config_dict'' \<mapsto> vision,
         ''text_vq_adapter_config_dict'' \<mapsto> text_adapter])) =
   VQCLIPConfig_init default_clip default_adapter
     [''clip_config_dict'' \<mapsto> Some clip,
      ''vision_vq_adapter_config_dict'' \<mapsto> vision,
      ''text_vq_adapter_config_dict'' \<mapsto> text_adapter] \<and>
   VQCLIPConfig_init default_clip default_adapter
     [''clip_config_dict'' \<mapsto> Some clip,
      ''vision_vq_adapter_config_dict'' \<mapsto> vision,
      ''text_vq_adapter_config_dict'' \<mapsto> text_adapter] =
   \<lparr> clip_config_dict = Some clip,
     vision_vq_adapter_config_dict = vision,
     text_vq_adapter_config_dict = text_adapter \<rparr>"
  by (simp add: from_dict_def to_dict_def VQCLIPConfig_init_def)

end
